theory Spec2Isabelle
  imports Main
begin

section \<open>The drawing board component (src/components/DrawingBoard.vue)\<close>

text \<open>
  The component keeps its history in two arrays of canvas snapshots, \<open>undoStack\<close> and
  \<open>redoStack\<close>, next to the canvas element, its 2d context and the pointer state. The
  handlers of the script block are embedded as functions on a record of that state.

  The browser's part is a parameter. The type \<open>'img\<close> is the raster of the 800 x 600
  canvas (what \<open>getImageData(0, 0, width, height)\<close> copies and \<open>putImageData(d, 0, 0)\<close>
  writes back); \<open>blank\<close> is the raster of a new canvas, which is also what
  \<open>clearRect(0, 0, width, height)\<close> leaves; \<open>stroke colour width from to\<close> is the effect of
  \<open>beginPath; strokeStyle = colour; lineWidth = Number(width); moveTo(from); lineTo(to);
  stroke()\<close> with round caps and joins; \<open>toDataURL\<close> is the PNG encoding. Reading and
  writing the whole raster are taken to be exact copies. Pointer coordinates are only
  handed on to \<open>stroke\<close>; they are integers here.
\<close>

subsection \<open>State\<close>

record 'img canvas_api =
  blank :: 'img
  stroke :: "string \<Rightarrow> string \<Rightarrow> int \<times> int \<Rightarrow> int \<times> int \<Rightarrow> 'img \<Rightarrow> 'img"
  toDataURL :: "'img \<Rightarrow> string"

text \<open>
  \<open>canvas\<close> says that the template ref \<open>canvas.value\<close> is not null, \<open>ctx\<close> that the
  module variable \<open>ctx\<close> is not null, \<open>raster\<close> is the displayed buffer.
\<close>

record 'img state =
  canvas :: bool
  ctx :: bool
  raster :: 'img
  isDrawing :: bool
  strokeColor :: string
  strokeWidth :: string
  undoStack :: "'img list"
  redoStack :: "'img list"
  lastX :: int
  lastY :: int

text \<open>
  A handler that throws leaves the state as it was at the throw, and the page goes on
  with the next event: the error is returned together with that state.
\<close>

datatype error = TypeError

type_synonym 'img outcome = "(error \<times> 'img state) + 'img state"

definition state_after :: "'img outcome \<Rightarrow> 'img state" where
  "state_after r = (case r of Inl (e, s) \<Rightarrow> s | Inr s \<Rightarrow> s)"

definition raised :: "'img outcome \<Rightarrow> bool" where
  "raised r = (case r of Inl x \<Rightarrow> True | Inr s \<Rightarrow> False)"

subsection \<open>JavaScript arrays and the canvas context\<close>

definition array_push :: "'a list \<Rightarrow> 'a \<Rightarrow> 'a list" where
  "array_push xs x = xs @ [x]"

text \<open>\<open>pop()\<close> returns \<open>undefined\<close> (here \<open>None\<close>) on an empty array.\<close>

definition array_pop :: "'a list \<Rightarrow> 'a option \<times> 'a list" where
  "array_pop xs = (if xs = [] then (None, []) else (Some (last xs), butlast xs))"

definition array_shift :: "'a list \<Rightarrow> 'a list" where
  "array_shift xs = (case xs of [] \<Rightarrow> [] | x # rest \<Rightarrow> rest)"

text \<open>\<open>xs[i]\<close> is \<open>undefined\<close> out of range.\<close>

definition array_get :: "'a list \<Rightarrow> int \<Rightarrow> 'a option" where
  "array_get xs i = (if 0 \<le> i \<and> i < int (length xs) then Some (xs ! nat i) else None)"

definition getImageData :: "'img state \<Rightarrow> 'img" where
  "getImageData s = raster s"

text \<open>\<open>putImageData(undefined, 0, 0)\<close> throws a TypeError.\<close>

definition putImageData :: "'img option \<Rightarrow> 'img state \<Rightarrow> 'img outcome" where
  "putImageData d s = (case d of None \<Rightarrow> Inl (TypeError, s) | Some img \<Rightarrow> Inr (s\<lparr>raster := img\<rparr>))"

subsection \<open>Setup and mount\<close>

text \<open>The refs and module variables as the script block initialises them.\<close>

definition script_setup :: "'img canvas_api \<Rightarrow> 'img state" where
  "script_setup api = \<lparr>canvas = False, ctx = False, raster = blank api, isDrawing = False,
     strokeColor = ''#000000'', strokeWidth = ''5'', undoStack = [], redoStack = [],
     lastX = 0, lastY = 0\<rparr>"

definition canUndo :: "'img state \<Rightarrow> bool" where
  "canUndo s = (length (undoStack s) > 1)"

definition canRedo :: "'img state \<Rightarrow> bool" where
  "canRedo s = (length (redoStack s) > 0)"

definition saveState :: "'img state \<Rightarrow> 'img state" where
  "saveState s =
     (if \<not> ctx s \<or> \<not> canvas s then s
      else
        let s1 = s\<lparr>undoStack := array_push (undoStack s) (getImageData s)\<rparr>;
            s2 = s1\<lparr>redoStack := []\<rparr>
        in if length (undoStack s2) > 50
           then s2\<lparr>undoStack := array_shift (undoStack s2)\<rparr>
           else s2)"

text \<open>
  \<open>onMounted\<close>: \<open>gotContext\<close> says whether \<open>getContext('2d')\<close> returned a context. The
  line cap and join it sets are part of \<open>stroke\<close>.
\<close>

definition onMounted :: "bool \<Rightarrow> 'img state \<Rightarrow> 'img state" where
  "onMounted gotContext s =
     (if canvas s then
        let s1 = s\<lparr>ctx := gotContext\<rparr>
        in if ctx s1 then saveState s1 else s1
      else s)"

text \<open>
  Mounting: Vue fills the template ref (\<open>el\<close> says whether it found the element) and
  then runs the \<open>onMounted\<close> hook.
\<close>

definition mount :: "'img canvas_api \<Rightarrow> bool \<Rightarrow> bool \<Rightarrow> 'img state" where
  "mount api el gotContext = onMounted gotContext ((script_setup api)\<lparr>canvas := el\<rparr>)"

subsection \<open>History\<close>

definition undo :: "'img state \<Rightarrow> 'img outcome" where
  "undo s =
     (if \<not> ctx s \<or> \<not> canvas s \<or> \<not> canUndo s then Inr s
      else
        let currentState = getImageData s;
            s1 = s\<lparr>redoStack := array_push (redoStack s) currentState\<rparr>;
            s2 = s1\<lparr>undoStack := snd (array_pop (undoStack s1))\<rparr>;
            lastState = array_get (undoStack s2) (int (length (undoStack s2)) - 1)
        in putImageData lastState s2)"

definition redo :: "'img state \<Rightarrow> 'img outcome" where
  "redo s =
     (if \<not> ctx s \<or> \<not> canvas s \<or> \<not> canRedo s then Inr s
      else
        let redoState = fst (array_pop (redoStack s));
            s1 = s\<lparr>redoStack := snd (array_pop (redoStack s))\<rparr>;
            currentState = getImageData s1;
            s2 = s1\<lparr>undoStack := array_push (undoStack s1) currentState\<rparr>
        in putImageData redoState s2)"

subsection \<open>Keyboard\<close>

record KeyboardEvent =
  ctrlKey :: bool
  metaKey :: bool
  shiftKey :: bool
  key :: string

text \<open>
  \<open>toLowerCase\<close> on the letters that matter to the comparison with \<open>'z'\<close> and \<open>'y'\<close>:
  the ASCII capitals.
\<close>

definition lower_char :: "char \<Rightarrow> char" where
  "lower_char c =
     (case map_of (zip ''ABCDEFGHIJKLMNOPQRSTUVWXYZ'' ''abcdefghijklmnopqrstuvwxyz'') c of
        None \<Rightarrow> c
      | Some d \<Rightarrow> d)"

definition toLowerCase :: "string \<Rightarrow> string" where
  "toLowerCase k = map lower_char k"

text \<open>\<open>preventDefault\<close> acts on the event only and is left out.\<close>

definition handleKeyDown :: "KeyboardEvent \<Rightarrow> 'img state \<Rightarrow> 'img outcome" where
  "handleKeyDown e s =
     (if (ctrlKey e \<or> metaKey e) \<and> toLowerCase (key e) = ''z'' then
        (if shiftKey e then redo s else undo s)
      else if (ctrlKey e \<or> metaKey e) \<and> toLowerCase (key e) = ''y'' then redo s
      else Inr s)"

subsection \<open>Drawing\<close>

record MouseEvent =
  offsetX :: int
  offsetY :: int

record Touch =
  clientX :: int
  clientY :: int

text \<open>
  A touch event with the list \<open>e.touches\<close>, and what \<open>getBoundingClientRect\<close> gives for
  the canvas at that moment.
\<close>

record TouchEvent =
  touches :: "Touch list"
  rectLeft :: int
  rectTop :: int

definition startDrawing :: "MouseEvent \<Rightarrow> 'img state \<Rightarrow> 'img state" where
  "startDrawing e s = s\<lparr>isDrawing := True, lastX := offsetX e, lastY := offsetY e\<rparr>"

definition draw :: "'img canvas_api \<Rightarrow> MouseEvent \<Rightarrow> 'img state \<Rightarrow> 'img state" where
  "draw api e s =
     (if \<not> isDrawing s \<or> \<not> ctx s then s
      else s\<lparr>raster := stroke api (strokeColor s) (strokeWidth s) (lastX s, lastY s)
                          (offsetX e, offsetY e) (raster s),
             lastX := offsetX e, lastY := offsetY e\<rparr>)"

text \<open>Reading \<open>clientX\<close> of \<open>e.touches[0]\<close> throws when the list is empty.\<close>

definition handleTouchStart :: "TouchEvent \<Rightarrow> 'img state \<Rightarrow> 'img outcome" where
  "handleTouchStart e s =
     (if \<not> canvas s then Inr s
      else case array_get (touches e) 0 of
        None \<Rightarrow> Inl (TypeError, s)
      | Some touch \<Rightarrow>
          Inr (s\<lparr>lastX := clientX touch - rectLeft e, lastY := clientY touch - rectTop e,
                 isDrawing := True\<rparr>))"

definition handleTouchMove :: "'img canvas_api \<Rightarrow> TouchEvent \<Rightarrow> 'img state \<Rightarrow> 'img outcome" where
  "handleTouchMove api e s =
     (if \<not> isDrawing s \<or> \<not> ctx s \<or> \<not> canvas s then Inr s
      else case array_get (touches e) 0 of
        None \<Rightarrow> Inl (TypeError, s)
      | Some touch \<Rightarrow>
          let x = clientX touch - rectLeft e;
              y = clientY touch - rectTop e
          in Inr (s\<lparr>raster := stroke api (strokeColor s) (strokeWidth s) (lastX s, lastY s)
                                 (x, y) (raster s),
                    lastX := x, lastY := y\<rparr>))"

definition stopDrawing :: "'img state \<Rightarrow> 'img state" where
  "stopDrawing s = (if isDrawing s then (saveState s)\<lparr>isDrawing := False\<rparr> else s)"

definition clearCanvas :: "'img canvas_api \<Rightarrow> 'img state \<Rightarrow> 'img state" where
  "clearCanvas api s =
     (if \<not> ctx s \<or> \<not> canvas s then s
      else saveState (s\<lparr>raster := blank api\<rparr>))"

subsection \<open>Export\<close>

text \<open>
  \<open>isoString\<close> is \<open>new Date().toISOString()\<close>. The result is the state, which the function
  only reads, and the download it starts: file name and link target.
\<close>

definition exportImage ::
  "'img canvas_api \<Rightarrow> string \<Rightarrow> 'img state \<Rightarrow> 'img state \<times> (string \<times> string) option" where
  "exportImage api isoString s =
     (if \<not> canvas s then (s, None)
      else (s, Some (''drawing-'' @ filter (\<lambda>c. c \<noteq> CHR '':'' \<and> c \<noteq> CHR ''-'') (take 19 isoString)
                       @ ''.png'',
                     toDataURL api (raster s))))"

subsection \<open>Events of the mounted component\<close>

text \<open>
  The listeners of the template and the window's \<open>keydown\<close> listener. The two pickers
  are bound with \<open>v-model\<close>.
\<close>

datatype event =
    MouseDown MouseEvent
  | MouseMove MouseEvent
  | MouseUp
  | MouseLeave
  | TouchStart TouchEvent
  | TouchMove TouchEvent
  | TouchEnd
  | KeyDown KeyboardEvent
  | ClickUndo
  | ClickRedo
  | ClickClear
  | ClickExport string
  | PickColor string
  | PickWidth string

fun dispatch :: "'img canvas_api \<Rightarrow> event \<Rightarrow> 'img state \<Rightarrow> 'img outcome" where
  "dispatch api (MouseDown e) s = Inr (startDrawing e s)"
| "dispatch api (MouseMove e) s = Inr (draw api e s)"
| "dispatch api MouseUp s = Inr (stopDrawing s)"
| "dispatch api MouseLeave s = Inr (stopDrawing s)"
| "dispatch api (TouchStart e) s = handleTouchStart e s"
| "dispatch api (TouchMove e) s = handleTouchMove api e s"
| "dispatch api TouchEnd s = Inr (stopDrawing s)"
| "dispatch api (KeyDown e) s = handleKeyDown e s"
| "dispatch api ClickUndo s = undo s"
| "dispatch api ClickRedo s = redo s"
| "dispatch api ClickClear s = Inr (clearCanvas api s)"
| "dispatch api (ClickExport isoString) s = Inr (fst (exportImage api isoString s))"
| "dispatch api (PickColor c) s = Inr (s\<lparr>strokeColor := c\<rparr>)"
| "dispatch api (PickWidth w) s = Inr (s\<lparr>strokeWidth := w\<rparr>)"

definition step :: "'img canvas_api \<Rightarrow> event \<Rightarrow> 'img state \<Rightarrow> 'img state" where
  "step api e s = state_after (dispatch api e s)"

fun run :: "'img canvas_api \<Rightarrow> event list \<Rightarrow> 'img state \<Rightarrow> 'img state" where
  "run api [] s = s"
| "run api (e # es) s = run api es (step api e s)"

subsection \<open>Strokes\<close>

text \<open>
  A stroke is one pointer drag: the button or finger goes down on the canvas, moves, and
  goes up. A touch stroke starts with at least one touch in \<open>e.touches\<close>.
\<close>

datatype gesture =
    MouseStroke MouseEvent "MouseEvent list"
  | TouchStroke Touch "Touch list" int int "TouchEvent list"

fun gesture_events :: "gesture \<Rightarrow> event list" where
  "gesture_events (MouseStroke down moves) = MouseDown down # map MouseMove moves @ [MouseUp]"
| "gesture_events (TouchStroke t ts rl rt moves) =
     TouchStart \<lparr>touches = t # ts, rectLeft = rl, rectTop = rt\<rparr>
       # map TouchMove moves @ [TouchEnd]"

definition strokes_events :: "gesture list \<Rightarrow> event list" where
  "strokes_events gs = concat (map gesture_events gs)"

text \<open>Calling \<open>undo()\<close> \<open>n\<close> times.\<close>

fun undo_times :: "nat \<Rightarrow> 'img state \<Rightarrow> 'img state" where
  "undo_times 0 s = s"
| "undo_times (Suc n) s = undo_times n (state_after (undo s))"

subsection \<open>A canvas for evaluation\<close>

text \<open>
  A small stand-in for the browser's canvas, used to run the handlers on concrete
  events: its raster is the list of the segments painted since it was last blank.
\<close>

type_synonym segment = "string \<times> string \<times> (int \<times> int) \<times> (int \<times> int)"

definition ink_canvas :: "segment list canvas_api" where
  "ink_canvas = \<lparr>blank = [], stroke = (\<lambda>c w p q img. img @ [(c, w, p, q)]),
     toDataURL = (\<lambda>img. ''data:image/png;base64,'')\<rparr>"

definition dash :: segment where
  "dash = (''#000000'', ''5'', (1, 2), (3, 4))"

text \<open>A mounted component with the given stacks and displayed buffer.\<close>

definition with_history :: "'img canvas_api \<Rightarrow> 'img list \<Rightarrow> 'img list \<Rightarrow> 'img \<Rightarrow> 'img state" where
  "with_history api us rs img =
     (script_setup api)\<lparr>canvas := True, ctx := True, raster := img, undoStack := us,
       redoStack := rs\<rparr>"

definition at :: "int \<Rightarrow> int \<Rightarrow> MouseEvent" where
  "at x y = \<lparr>offsetX = x, offsetY = y\<rparr>"

definition keydown :: "bool \<Rightarrow> bool \<Rightarrow> bool \<Rightarrow> string \<Rightarrow> KeyboardEvent" where
  "keydown c m sh k = \<lparr>ctrlKey = c, metaKey = m, shiftKey = sh, key = k\<rparr>"

subsection \<open>The invariant of the history\<close>

text \<open>
  What every handler keeps: the two stacks hold at most 50 snapshots together; a
  component with a context has a canvas and a snapshot to go back to; one without a
  context has recorded nothing.
\<close>

definition history_inv :: "'img state \<Rightarrow> bool" where
  "history_inv s =
     (length (undoStack s) + length (redoStack s) \<le> 50 \<and>
      (ctx s \<longrightarrow> canvas s \<and> undoStack s \<noteq> []) \<and>
      (\<not> ctx s \<longrightarrow> undoStack s = [] \<and> redoStack s = []))"

section \<open>Properties\<close>

subsection \<open>What the handlers do to the state\<close>

lemma state_after_simps [simp]:
  "state_after (Inr s) = s" "state_after (Inl (e, s)) = s"
  by (simp_all add: state_after_def)

lemma saveState_fields [simp]:
  "ctx (saveState s) = ctx s" "canvas (saveState s) = canvas s" "raster (saveState s) = raster s"
  "isDrawing (saveState s) = isDrawing s" "strokeColor (saveState s) = strokeColor s"
  "strokeWidth (saveState s) = strokeWidth s" "lastX (saveState s) = lastX s"
  "lastY (saveState s) = lastY s"
  by (simp_all add: saveState_def Let_def)

lemma undoStack_saveState:
  "undoStack (saveState s) =
     (if \<not> ctx s \<or> \<not> canvas s then undoStack s
      else if length (undoStack s) \<ge> 50 then tl (undoStack s @ [raster s])
      else undoStack s @ [raster s])"
  by (auto simp add: saveState_def Let_def array_push_def array_shift_def getImageData_def split: list.splits)

lemma redoStack_saveState:
  "redoStack (saveState s) = (if \<not> ctx s \<or> \<not> canvas s then redoStack s else [])"
  by (simp add: saveState_def Let_def)

lemma array_get_last: "xs \<noteq> [] \<Longrightarrow> array_get xs (int (length xs) - 1) = Some (last xs)"
  by (cases xs rule: rev_cases) (auto simp add: array_get_def nth_append nat_diff_distrib')

lemma undo_eq:
  "undo s =
     (if \<not> ctx s \<or> \<not> canvas s \<or> length (undoStack s) < 2 then Inr s
      else Inr (s\<lparr>redoStack := redoStack s @ [raster s], undoStack := butlast (undoStack s),
                  raster := last (butlast (undoStack s))\<rparr>))"
proof (cases "\<not> ctx s \<or> \<not> canvas s \<or> length (undoStack s) < 2")
  case True
  then show ?thesis by (auto simp add: undo_def canUndo_def)
next
  case False
  then have ne: "butlast (undoStack s) \<noteq> []"
    by (cases "undoStack s" rule: rev_cases) auto
  from False have "undoStack s \<noteq> []" by auto
  with False ne show ?thesis
    using array_get_last [OF ne]
    by (simp add: undo_def canUndo_def Let_def array_push_def array_pop_def getImageData_def
        putImageData_def)
qed

lemma redo_eq:
  "redo s =
     (if \<not> ctx s \<or> \<not> canvas s \<or> redoStack s = [] then Inr s
      else Inr (s\<lparr>redoStack := butlast (redoStack s), undoStack := undoStack s @ [raster s],
                  raster := last (redoStack s)\<rparr>))"
  by (simp add: redo_def canRedo_def Let_def array_push_def array_pop_def getImageData_def
        putImageData_def)

subsection \<open>The invariant holds in every state after mount\<close>

lemma history_inv_mount: "history_inv (mount api el gc)"
  by (simp add: history_inv_def mount_def onMounted_def script_setup_def Let_def
      undoStack_saveState redoStack_saveState)

lemma history_inv_saveState: "history_inv s \<Longrightarrow> history_inv (saveState s)"
  by (auto simp add: history_inv_def undoStack_saveState redoStack_saveState)

lemma history_inv_undo: "history_inv s \<Longrightarrow> history_inv (state_after (undo s))"
  by (cases "undoStack s" rule: rev_cases)
     (auto simp add: history_inv_def undo_eq)

lemma history_inv_redo: "history_inv s \<Longrightarrow> history_inv (state_after (redo s))"
  by (cases "redoStack s" rule: rev_cases)
     (auto simp add: history_inv_def redo_eq)

lemma history_inv_frame:
  "history_inv s \<Longrightarrow> ctx s' = ctx s \<Longrightarrow> canvas s' = canvas s \<Longrightarrow>
   undoStack s' = undoStack s \<Longrightarrow> redoStack s' = redoStack s \<Longrightarrow> history_inv s'"
  by (simp add: history_inv_def)

lemma history_inv_handleKeyDown: "history_inv s \<Longrightarrow> history_inv (state_after (handleKeyDown e s))"
  by (simp add: handleKeyDown_def history_inv_undo history_inv_redo)

lemma history_inv_stopDrawing: "history_inv s \<Longrightarrow> history_inv (stopDrawing s)"
  using history_inv_saveState [of s]
  by (auto simp add: stopDrawing_def elim: history_inv_frame)

lemma history_inv_clearCanvas: "history_inv s \<Longrightarrow> history_inv (clearCanvas api s)"
  using history_inv_saveState [of "s\<lparr>raster := blank api\<rparr>"]
  by (auto simp add: clearCanvas_def  history_inv_def)

lemma history_inv_step: "history_inv s \<Longrightarrow> history_inv (step api e s)"
proof (cases e)
  case (TouchStart t)
  assume "history_inv s"
  then show ?thesis using TouchStart
    by (auto simp add: step_def handleTouchStart_def history_inv_def
        split: option.splits)
next
  case (TouchMove t)
  assume "history_inv s"
  then show ?thesis using TouchMove
    by (auto simp add: step_def handleTouchMove_def history_inv_def Let_def
        split: option.splits)
next
  case (KeyDown k)
  assume "history_inv s"
  then show ?thesis using KeyDown by (simp add: step_def history_inv_handleKeyDown)
qed (auto simp add: step_def history_inv_stopDrawing history_inv_clearCanvas
      history_inv_undo history_inv_redo startDrawing_def draw_def exportImage_def
      elim: history_inv_frame)

lemma history_inv_run: "history_inv s \<Longrightarrow> history_inv (run api evs s)"
  by (induction evs arbitrary: s) (simp_all add: history_inv_step)

lemma history_inv_reachable: "history_inv (run api evs (mount api el gc))"
  by (rule history_inv_run [OF history_inv_mount])

subsection \<open>Strokes and repeated undo\<close>

lemma run_append: "run api (xs @ ys) s = run api ys (run api xs s)"
  by (induction xs arbitrary: s) simp_all

lemma run_MouseMoves:
  "ctx (run api (map MouseMove ms) s) = ctx s"
  "canvas (run api (map MouseMove ms) s) = canvas s"
  "isDrawing (run api (map MouseMove ms) s) = isDrawing s"
  "undoStack (run api (map MouseMove ms) s) = undoStack s"
  "redoStack (run api (map MouseMove ms) s) = redoStack s"
  by (induction ms arbitrary: s; simp add: step_def draw_def)+

lemma run_TouchMoves:
  "ctx (run api (map TouchMove ms) s) = ctx s"
  "canvas (run api (map TouchMove ms) s) = canvas s"
  "isDrawing (run api (map TouchMove ms) s) = isDrawing s"
  "undoStack (run api (map TouchMove ms) s) = undoStack s"
  "redoStack (run api (map TouchMove ms) s) = redoStack s"
  by (induction ms arbitrary: s;
      simp add: step_def handleTouchMove_def Let_def split: option.splits)+

lemma gesture_commit:
  assumes "ctx s" and "canvas s"
  shows "ctx (run api (gesture_events g) s)"
    and "canvas (run api (gesture_events g) s)"
    and "redoStack (run api (gesture_events g) s) = []"
    and "undoStack (run api (gesture_events g) s) =
           (if 50 \<le> length (undoStack s)
            then tl (undoStack s @ [raster (run api (gesture_events g) s)])
            else undoStack s @ [raster (run api (gesture_events g) s)])"
  using assms
  by (cases g;
      simp add: run_append step_def startDrawing_def stopDrawing_def handleTouchStart_def
        array_get_def undoStack_saveState redoStack_saveState run_MouseMoves run_TouchMoves)+

lemma strokes_commit:
  assumes "ctx s" and "canvas s" and "undoStack s \<noteq> []" and "last (undoStack s) = raster s"
    and "length (undoStack s) + length gs \<le> 50"
  shows "ctx (run api (strokes_events gs) s) \<and> canvas (run api (strokes_events gs) s) \<and>
         length (undoStack (run api (strokes_events gs) s)) = length (undoStack s) + length gs \<and>
         hd (undoStack (run api (strokes_events gs) s)) = hd (undoStack s) \<and>
         last (undoStack (run api (strokes_events gs) s)) = raster (run api (strokes_events gs) s)"
  using assms
proof (induction gs arbitrary: s)
  case Nil
  then show ?case by (simp add: strokes_events_def)
next
  case (Cons g gs)
  let ?t = "run api (gesture_events g) s"
  have t: "ctx ?t" "canvas ?t" "undoStack ?t = undoStack s @ [raster ?t]"
    using gesture_commit [of s api g] Cons.prems by simp_all
  have "ctx (run api (strokes_events gs) ?t) \<and> canvas (run api (strokes_events gs) ?t) \<and>
         length (undoStack (run api (strokes_events gs) ?t)) = length (undoStack ?t) + length gs \<and>
         hd (undoStack (run api (strokes_events gs) ?t)) = hd (undoStack ?t) \<and>
         last (undoStack (run api (strokes_events gs) ?t)) = raster (run api (strokes_events gs) ?t)"
    using t Cons.prems by (intro Cons.IH) simp_all
  moreover have "strokes_events (g # gs) = gesture_events g @ strokes_events gs"
    by (simp add: strokes_events_def)
  ultimately show ?case
    using t Cons.prems(3) by (simp add: run_append)
qed

lemma undo_times_hd:
  assumes "ctx s" and "canvas s" and "length (undoStack s) = Suc n"
    and "last (undoStack s) = raster s"
  shows "raster (undo_times n s) = hd (undoStack s)"
  using assms
proof (induction n arbitrary: s)
  case 0
  then show ?case by (cases "undoStack s") simp_all
next
  case (Suc n)
  let ?t = "s\<lparr>redoStack := redoStack s @ [raster s], undoStack := butlast (undoStack s),
                raster := last (butlast (undoStack s))\<rparr>"
  have u: "state_after (undo s) = ?t"
    using Suc.prems by (simp add: undo_eq)
  have "raster (undo_times n ?t) = hd (undoStack ?t)"
    using Suc.prems by (intro Suc.IH) simp_all
  moreover have "hd (butlast (undoStack s)) = hd (undoStack s)"
    using Suc.prems(3) by (cases "undoStack s") auto
  ultimately show ?case by (simp add: u)
qed

lemma mount_style:
  "strokeColor (mount api el gc) = ''#000000''" "strokeWidth (mount api el gc) = ''5''"
  "isDrawing (mount api el gc) = False"
  by (simp_all add: mount_def onMounted_def script_setup_def Let_def)

lemma mount_ok:
  "ctx (mount api True True)" "canvas (mount api True True)"
  "undoStack (mount api True True) = [blank api]" "redoStack (mount api True True) = []"
  "raster (mount api True True) = blank api"
  by (simp_all add: mount_def onMounted_def script_setup_def Let_def undoStack_saveState
      redoStack_saveState)

lemma mount_no_context:
  "\<not> ctx (mount api el False)" "undoStack (mount api el False) = []"
  "redoStack (mount api el False) = []"
  by (simp_all add: mount_def onMounted_def script_setup_def Let_def)

subsection \<open>Errors, context and keys\<close>

lemma raised_simps [simp]: "raised (Inr s) = False" "raised (Inl x) = True"
  by (simp_all add: raised_def)

text \<open>The guards of \<open>undo\<close> and \<open>redo\<close> keep \<open>putImageData\<close> from ever seeing \<open>undefined\<close>.\<close>

lemma undo_never_raises: "\<not> raised (undo s)"
  by (simp add: undo_eq)

lemma redo_never_raises: "\<not> raised (redo s)"
  by (simp add: redo_eq)

lemma step_ctx_canvas: "ctx (step api e s) = ctx s \<and> canvas (step api e s) = canvas s"
  by (cases e)
     (simp_all add: step_def startDrawing_def draw_def stopDrawing_def clearCanvas_def
        exportImage_def handleTouchStart_def handleTouchMove_def handleKeyDown_def undo_eq
        redo_eq Let_def split: option.splits)

lemma run_ctx_canvas: "ctx (run api evs s) = ctx s \<and> canvas (run api evs s) = canvas s"
  by (induction evs arbitrary: s) (simp_all add: step_ctx_canvas)

lemma lower_char_z: "lower_char c = CHR ''z'' \<longleftrightarrow> c = CHR ''z'' \<or> c = CHR ''Z''"
  by (auto simp add: lower_char_def split: if_splits)

lemma lower_char_y: "lower_char c = CHR ''y'' \<longleftrightarrow> c = CHR ''y'' \<or> c = CHR ''Y''"
  by (auto simp add: lower_char_def split: if_splits)

lemma toLowerCase_z: "toLowerCase k = ''z'' \<longleftrightarrow> k = ''z'' \<or> k = ''Z''"
  by (cases k) (auto simp add: toLowerCase_def lower_char_z)

lemma toLowerCase_y: "toLowerCase k = ''y'' \<longleftrightarrow> k = ''y'' \<or> k = ''Y''"
  by (cases k) (auto simp add: toLowerCase_def lower_char_y)

subsection \<open>Evaluating the handlers\<close>

lemmas handler_simps =
  step_def startDrawing_def draw_def stopDrawing_def clearCanvas_def undo_eq redo_eq mount_ok
  undoStack_saveState redoStack_saveState run_ctx_canvas mount_style

lemma ink_canvas_simps [simp]:
  "blank ink_canvas = []" "stroke ink_canvas c w p q img = img @ [(c, w, p, q)]"
  by (simp_all add: ink_canvas_def)

lemma with_history_simps [simp]:
  "ctx (with_history api us rs img)" "canvas (with_history api us rs img)"
  "undoStack (with_history api us rs img) = us" "redoStack (with_history api us rs img) = rs"
  "raster (with_history api us rs img) = img"
  by (simp_all add: with_history_def)

section \<open>Properties of the specification\<close>

text \<open>
  C1. In every state after mount, whatever events the component has handled (strokes,
  clears, undo and redo by button or key, exports, picker changes), the undo stack holds
  at most 50 snapshots. And when the push in \<open>saveState\<close> takes the stack past 50, the
  stack it leaves is the pushed one without its first, oldest entry.
\<close>

theorem undo_stack_bounded:
  "length (undoStack (run api evs (mount api el gotContext))) \<le> 50 \<and>
   (ctx s \<and> canvas s \<and> length (array_push (undoStack s) (getImageData s)) > 50 \<longrightarrow>
      undoStack (saveState s) = tl (array_push (undoStack s) (getImageData s)))"
  using history_inv_reachable [of api evs el gotContext]
  by (simp add: history_inv_def undoStack_saveState array_push_def getImageData_def)

theorem undo_stack_bounded_witness:
  "length (undoStack (run ink_canvas
       (strokes_events (replicate 60 (MouseStroke (at 1 2) [at 3 4]))
          @ [ClickUndo, ClickRedo, ClickClear])
       (mount ink_canvas True True))) \<le> 50 \<and>
   ctx (with_history ink_canvas (replicate 50 []) [] [dash]) \<and>
   canvas (with_history ink_canvas (replicate 50 []) [] [dash]) \<and>
   undoStack (saveState
       (with_history ink_canvas (replicate 50 []) [] [dash]))
     = replicate 49 [] @ [[dash]]"
  using undo_stack_bounded [of ink_canvas
      "strokes_events (replicate 60 (MouseStroke (at 1 2) [at 3 4]))
         @ [ClickUndo, ClickRedo, ClickClear]"
      True True
      "with_history ink_canvas (replicate 50 []) [] [dash]"]
  by (simp add: with_history_def script_setup_def array_push_def getImageData_def)

text \<open>
  C2. The last element of the undo stack is meant to be the displayed buffer.
  \<open>saveState\<close> and \<open>undo\<close> leave it so, \<open>redo\<close> does not: it pushes the buffer it is
  about to replace. After one stroke, one undo and one redo the top of the undo stack is
  the blank raster while the canvas shows the stroke.
\<close>

theorem redo_leaves_stale_top:
  assumes "r = run api [MouseDown p, MouseMove q, MouseUp, ClickUndo, ClickRedo]
                 (mount api True True)"
  shows "last (undoStack r) = blank api \<and>
         raster r = stroke api ''#000000'' ''5'' (offsetX p, offsetY p) (offsetX q, offsetY q)
                      (blank api)"
  unfolding assms
  by (simp add: step_def startDrawing_def draw_def stopDrawing_def undo_eq redo_eq mount_ok
      undoStack_saveState redoStack_saveState mount_def onMounted_def script_setup_def Let_def)

theorem redo_leaves_stale_top_witness:
  "last (undoStack (run ink_canvas
       [MouseDown (at 1 2), MouseMove (at 3 4), MouseUp, ClickUndo, ClickRedo]
       (mount ink_canvas True True))) = [] \<and>
   raster (run ink_canvas
       [MouseDown (at 1 2), MouseMove (at 3 4), MouseUp, ClickUndo, ClickRedo]
       (mount ink_canvas True True)) = [dash] \<and>
   last (undoStack (run ink_canvas
       [MouseDown (at 1 2), MouseMove (at 3 4), MouseUp, ClickUndo, ClickRedo]
       (mount ink_canvas True True)))
     \<noteq> raster (run ink_canvas
       [MouseDown (at 1 2), MouseMove (at 3 4), MouseUp, ClickUndo, ClickRedo]
       (mount ink_canvas True True))"
  using redo_leaves_stale_top [of _ ink_canvas "at 1 2" "at 3 4", OF refl]
  by (simp add: at_def dash_def)

text \<open>
  C3. In a state whose undo stack has at least two entries, \<open>undo()\<close> followed by
  \<open>redo()\<close> displays the same raster as before the undo, and neither call throws.
\<close>

theorem undo_redo_restores:
  assumes "length (undoStack s) \<ge> 2"
  shows "raster (state_after (redo (state_after (undo s)))) = raster s \<and>
         \<not> raised (undo s) \<and> \<not> raised (redo (state_after (undo s)))"
  using assms by (auto simp add: undo_eq redo_eq)

theorem undo_redo_restores_witness:
  "2 \<le> length (undoStack (with_history ink_canvas [[], [dash]] [] [dash])) \<and>
   raster (state_after (undo (with_history ink_canvas [[], [dash]] [] [dash]))) = [] \<and>
   raster (state_after (redo (state_after (undo (with_history ink_canvas [[], [dash]] [] [dash])))))
     = [dash]"
  using undo_redo_restores [of "with_history ink_canvas [[], [dash]] [] [dash]"]
  by (simp add: undo_eq)

text \<open>
  C4. \<open>stopDrawing\<close> during a stroke and \<open>clearCanvas\<close> with its canvas and context go
  through \<open>saveState\<close>. In every state \<open>r\<close> after mount the redo stack is empty after
  \<open>saveState\<close>, after a stroke commit and after a clear; and in any state \<open>s\<close> with canvas
  and context \<open>saveState\<close> empties the redo stack whatever it held.
\<close>

theorem commit_clears_redo:
  assumes "r = run api evs (mount api el gotContext)"
  shows "(isDrawing r \<longrightarrow> stopDrawing r = (saveState r)\<lparr>isDrawing := False\<rparr>) \<and>
         (ctx r \<and> canvas r \<longrightarrow> clearCanvas api r = saveState (r\<lparr>raster := blank api\<rparr>)) \<and>
         redoStack (saveState r) = [] \<and>
         (isDrawing r \<longrightarrow> redoStack (stopDrawing r) = []) \<and>
         redoStack (clearCanvas api r) = [] \<and>
         (ctx s \<and> canvas s \<longrightarrow> redoStack (saveState s) = [])"
  using history_inv_reachable [of api evs el gotContext] assms
  by (auto simp add: history_inv_def stopDrawing_def clearCanvas_def redoStack_saveState)

theorem commit_clears_redo_witness:
  "isDrawing (run ink_canvas
       [MouseDown (at 1 2), MouseMove (at 3 4), MouseUp, ClickUndo, MouseDown (at 5 6)]
       (mount ink_canvas True True)) \<and>
   redoStack (run ink_canvas
       [MouseDown (at 1 2), MouseMove (at 3 4), MouseUp, ClickUndo, MouseDown (at 5 6)]
       (mount ink_canvas True True)) = [[dash]] \<and>
   redoStack (stopDrawing (run ink_canvas
       [MouseDown (at 1 2), MouseMove (at 3 4), MouseUp, ClickUndo, MouseDown (at 5 6)]
       (mount ink_canvas True True))) = [] \<and>
   redoStack (clearCanvas ink_canvas (run ink_canvas
       [MouseDown (at 1 2), MouseMove (at 3 4), MouseUp, ClickUndo, MouseDown (at 5 6)]
       (mount ink_canvas True True))) = [] \<and>
   redoStack (saveState (with_history ink_canvas [[]] [[dash]] [])) = []"
proof -
  let ?r = "run ink_canvas
       [MouseDown (at 1 2), MouseMove (at 3 4), MouseUp, ClickUndo, MouseDown (at 5 6)]
       (mount ink_canvas True True)"
  have r: "isDrawing ?r" "redoStack ?r = [[dash]]"
    by (simp_all add: handler_simps at_def dash_def)
  show ?thesis
    using commit_clears_redo [of ?r ink_canvas
        "[MouseDown (at 1 2), MouseMove (at 3 4), MouseUp, ClickUndo, MouseDown (at 5 6)]"
        True True "with_history ink_canvas [[]] [[dash]] []", OF refl]
    by (simp add: r del: run.simps)
qed

text \<open>
  C5. \<open>onMounted\<close> pushes the blank snapshot only when it has the canvas and
  \<open>getContext('2d')\<close> gave a context. After such a mount the undo stack is never empty,
  whatever events follow; and \<open>undo\<close> never empties a non-empty undo stack. After a mount
  without a context nothing is pushed, and the undo stack is and stays empty.
\<close>

theorem undo_stack_nonempty:
  "undoStack (mount api True True) = [blank api] \<and>
   undoStack (run api evs (mount api True True)) \<noteq> [] \<and>
   (undoStack s \<noteq> [] \<longrightarrow> undoStack (state_after (undo s)) \<noteq> [])"
proof (intro conjI)
  show "undoStack (mount api True True) = [blank api]"
    by (simp add: mount_ok)
next
  have "ctx (run api evs (mount api True True))"
    by (simp add: run_ctx_canvas mount_ok)
  with history_inv_reachable [of api evs True True]
  show "undoStack (run api evs (mount api True True)) \<noteq> []"
    by (simp add: history_inv_def)
next
  show "undoStack s \<noteq> [] \<longrightarrow> undoStack (state_after (undo s)) \<noteq> []"
    by (cases "undoStack s" rule: rev_cases) (auto simp add: undo_eq)
qed

theorem undo_stack_nonempty_witness:
  "undoStack (mount ink_canvas True True) = [[]] \<and>
   undoStack (run ink_canvas
      (gesture_events (MouseStroke (at 1 2) [at 3 4]) @ [ClickUndo, ClickUndo, ClickUndo])
      (mount ink_canvas True True)) = [[]] \<and>
   undoStack (state_after (undo (with_history ink_canvas [[]] [] []))) = [[]]"
proof -
  have "undoStack (run ink_canvas
      (gesture_events (MouseStroke (at 1 2) [at 3 4]) @ [ClickUndo, ClickUndo, ClickUndo])
      (mount ink_canvas True True)) = [[]]"
    by (simp add: step_def startDrawing_def draw_def stopDrawing_def undo_eq mount_ok
        undoStack_saveState redoStack_saveState ink_canvas_def)
  moreover have "undoStack (state_after (undo (with_history ink_canvas [[]] [] []))) = [[]]"
    by (simp add: undo_eq with_history_def script_setup_def)
  ultimately show ?thesis
    using undo_stack_nonempty [of ink_canvas
      "gesture_events (MouseStroke (at 1 2) [at 3 4]) @ [ClickUndo, ClickUndo, ClickUndo]"
      "with_history ink_canvas [[]] [] []"]
    by simp
qed

theorem undo_stack_empty_without_context:
  "undoStack (mount ink_canvas True False) = [] \<and>
   undoStack (run ink_canvas
      [MouseDown (at 1 2), MouseMove (at 3 4), MouseUp, ClickClear, ClickUndo, ClickRedo]
      (mount ink_canvas True False)) = []"
  by (simp add: step_def startDrawing_def draw_def stopDrawing_def clearCanvas_def undo_eq
      redo_eq undoStack_saveState mount_no_context)

text \<open>
  C6. \<open>redo()\<close> returns the state as it is when the redo stack is empty. Otherwise, in a
  state \<open>s\<close> with canvas and context and in every state \<open>r\<close> after mount, it pops the last
  snapshot of the redo stack, pushes the displayed buffer onto the undo stack and
  displays the popped snapshot.
\<close>

theorem redo_behaviour:
  assumes "r = run api evs (mount api el gotContext)"
  shows "(redoStack s = [] \<longrightarrow> redo s = Inr s) \<and>
         (ctx s \<and> canvas s \<and> redoStack s \<noteq> [] \<longrightarrow>
            redo s = Inr (s\<lparr>redoStack := butlast (redoStack s),
                            undoStack := array_push (undoStack s) (raster s),
                            raster := last (redoStack s)\<rparr>)) \<and>
         (redoStack r \<noteq> [] \<longrightarrow>
            redo r = Inr (r\<lparr>redoStack := butlast (redoStack r),
                            undoStack := array_push (undoStack r) (raster r),
                            raster := last (redoStack r)\<rparr>))"
  using history_inv_reachable [of api evs el gotContext] assms
  by (auto simp add: redo_eq history_inv_def array_push_def)

theorem redo_behaviour_witness:
  "redoStack (run ink_canvas [MouseDown (at 1 2), MouseMove (at 3 4), MouseUp, ClickUndo]
       (mount ink_canvas True True)) = [[dash]] \<and>
   undoStack (state_after (redo (run ink_canvas
       [MouseDown (at 1 2), MouseMove (at 3 4), MouseUp, ClickUndo] (mount ink_canvas True True))))
     = [[], []] \<and>
   raster (state_after (redo (run ink_canvas
       [MouseDown (at 1 2), MouseMove (at 3 4), MouseUp, ClickUndo] (mount ink_canvas True True))))
     = [dash] \<and>
   redoStack (state_after (redo (run ink_canvas
       [MouseDown (at 1 2), MouseMove (at 3 4), MouseUp, ClickUndo] (mount ink_canvas True True))))
     = [] \<and>
   redo (with_history ink_canvas [[]] [] [])= Inr (with_history ink_canvas [[]] [] []) \<and>
   undoStack (state_after (redo (with_history ink_canvas [[]] [[dash]] []))) = [[], []] \<and>
   raster (state_after (redo (with_history ink_canvas [[]] [[dash]] []))) = [dash]"
proof -
  let ?r = "run ink_canvas [MouseDown (at 1 2), MouseMove (at 3 4), MouseUp, ClickUndo]
       (mount ink_canvas True True)"
  have r: "redoStack ?r = [[dash]]" "undoStack ?r = [[]]" "raster ?r = []"
    by (simp_all add: handler_simps at_def dash_def)
  show ?thesis
    using redo_behaviour [of ?r ink_canvas
        "[MouseDown (at 1 2), MouseMove (at 3 4), MouseUp, ClickUndo]" True True
        "with_history ink_canvas [[]] [] []", OF refl]
      redo_behaviour [of ?r ink_canvas
        "[MouseDown (at 1 2), MouseMove (at 3 4), MouseUp, ClickUndo]" True True
        "with_history ink_canvas [[]] [[dash]] []", OF refl]
    by (simp add: r array_push_def del: run.simps)
qed

text \<open>
  C7. The freshly mounted component (canvas and context present) has the blank raster
  as its one snapshot and an empty redo stack. After \<open>N \<le> 49\<close> committed strokes the
  undo stack has \<open>N + 1\<close> entries, and \<open>N\<close> calls of \<open>undo()\<close> then display the blank
  raster again.
\<close>

theorem strokes_then_undo:
  assumes "length gs \<le> 49" and "s = run api (strokes_events gs) (mount api True True)"
  shows "undoStack (mount api True True) = [blank api] \<and> redoStack (mount api True True) = [] \<and>
         length (undoStack s) = length gs + 1 \<and>
         raster (undo_times (length gs) s) = blank api"
proof -
  have c: "ctx s \<and> canvas s \<and> length (undoStack s) = length (undoStack (mount api True True)) + length gs \<and>
         hd (undoStack s) = hd (undoStack (mount api True True)) \<and>
         last (undoStack s) = raster s"
    unfolding assms(2) using assms(1) by (intro strokes_commit) (simp_all add: mount_ok)
  then have "raster (undo_times (length gs) s) = hd (undoStack s)"
    by (intro undo_times_hd) (simp_all add: mount_ok)
  with c show ?thesis by (simp add: mount_ok)
qed

theorem strokes_then_undo_witness:
  "length [MouseStroke (at 1 2) [at 3 4, at 5 6], TouchStroke \<lparr>clientX = 20, clientY = 30\<rparr> [] 8 9 []] \<le> (49::nat) \<and>
   length (undoStack (run ink_canvas
     (strokes_events [MouseStroke (at 1 2) [at 3 4, at 5 6], TouchStroke \<lparr>clientX = 20, clientY = 30\<rparr> [] 8 9 []])
     (mount ink_canvas True True))) = 3 \<and>
   raster (undo_times 2 (run ink_canvas
     (strokes_events [MouseStroke (at 1 2) [at 3 4, at 5 6], TouchStroke \<lparr>clientX = 20, clientY = 30\<rparr> [] 8 9 []])
     (mount ink_canvas True True))) = []"
  using strokes_then_undo [of "[MouseStroke (at 1 2) [at 3 4, at 5 6], TouchStroke \<lparr>clientX = 20, clientY = 30\<rparr> [] 8 9 []]" _ ink_canvas, OF _ refl]
  by (simp add: ink_canvas_def numeral_2_eq_2)

text \<open>
  C8. An operation whose guard fails returns the state it was given, without an error:
  \<open>saveState\<close>, \<open>undo\<close>, \<open>redo\<close> and \<open>clearCanvas\<close> when the context or the canvas is
  missing, \<open>exportImage\<close> when the canvas is missing (it never changes the state and
  then starts no download), \<open>undo\<close> with fewer than two entries on the undo stack,
  \<open>redo\<close> with an empty redo stack.
\<close>

theorem failed_guards_are_silent:
  "(\<not> ctx s \<or> \<not> canvas s \<longrightarrow>
      saveState s = s \<and> undo s = Inr s \<and> redo s = Inr s \<and> clearCanvas api s = s) \<and>
   (\<not> canvas s \<longrightarrow> exportImage api isoString s = (s, None)) \<and>
   fst (exportImage api isoString s) = s \<and>
   (length (undoStack s) < 2 \<longrightarrow> undo s = Inr s) \<and>
   (redoStack s = [] \<longrightarrow> redo s = Inr s)"
  by (auto simp add: saveState_def undo_eq redo_eq clearCanvas_def exportImage_def)

theorem failed_guards_are_silent_witness:
  "\<not> ctx ((with_history ink_canvas [[], [dash]] [[dash, dash]] [dash])\<lparr>ctx := False\<rparr>) \<and>
   saveState ((with_history ink_canvas [[], [dash]] [[dash, dash]] [dash])\<lparr>ctx := False\<rparr>)
     = (with_history ink_canvas [[], [dash]] [[dash, dash]] [dash])\<lparr>ctx := False\<rparr> \<and>
   undo ((with_history ink_canvas [[], [dash]] [[dash, dash]] [dash])\<lparr>ctx := False\<rparr>)
     = Inr ((with_history ink_canvas [[], [dash]] [[dash, dash]] [dash])\<lparr>ctx := False\<rparr>) \<and>
   redo ((with_history ink_canvas [[], [dash]] [[dash, dash]] [dash])\<lparr>ctx := False\<rparr>)
     = Inr ((with_history ink_canvas [[], [dash]] [[dash, dash]] [dash])\<lparr>ctx := False\<rparr>) \<and>
   clearCanvas ink_canvas ((with_history ink_canvas [[], [dash]] [[dash, dash]] [dash])\<lparr>ctx := False\<rparr>)
     = (with_history ink_canvas [[], [dash]] [[dash, dash]] [dash])\<lparr>ctx := False\<rparr> \<and>
   \<not> canvas (script_setup ink_canvas) \<and>
   exportImage ink_canvas ''2024-01-02T03:04:05.678Z'' (script_setup ink_canvas)
     = (script_setup ink_canvas, None) \<and>
   length (undoStack (with_history ink_canvas [[dash]] [] [dash])) < 2 \<and>
   undo (with_history ink_canvas [[dash]] [] [dash]) = Inr (with_history ink_canvas [[dash]] [] [dash]) \<and>
   redoStack (with_history ink_canvas [[dash]] [] [dash]) = [] \<and>
   redo (with_history ink_canvas [[dash]] [] [dash]) = Inr (with_history ink_canvas [[dash]] [] [dash])"
  using failed_guards_are_silent [of
      "(with_history ink_canvas [[], [dash]] [[dash, dash]] [dash])\<lparr>ctx := False\<rparr>" ink_canvas
      "''2024-01-02T03:04:05.678Z''"]
    failed_guards_are_silent [of "script_setup ink_canvas" ink_canvas "''2024-01-02T03:04:05.678Z''"]
    failed_guards_are_silent [of "with_history ink_canvas [[dash]] [] [dash]" ink_canvas
      "''2024-01-02T03:04:05.678Z''"]
  by (simp add: script_setup_def)

text \<open>
  C9. A \<open>keydown\<close> with Ctrl or Cmd and the key \<open>z\<close> (in either case, as the
  comparison is made on the lowered key) does what \<open>undo()\<close> does without Shift and what
  \<open>redo()\<close> does with Shift; with Ctrl or Cmd and the key \<open>y\<close> it does what \<open>redo()\<close>
  does; every other \<open>keydown\<close> leaves the state as it is.
\<close>

theorem handleKeyDown_shortcuts:
  "((ctrlKey e \<or> metaKey e) \<and> (key e = ''z'' \<or> key e = ''Z'') \<and> \<not> shiftKey e \<longrightarrow>
      handleKeyDown e s = undo s) \<and>
   ((ctrlKey e \<or> metaKey e) \<and> (key e = ''z'' \<or> key e = ''Z'') \<and> shiftKey e \<longrightarrow>
      handleKeyDown e s = redo s) \<and>
   ((ctrlKey e \<or> metaKey e) \<and> (key e = ''y'' \<or> key e = ''Y'') \<longrightarrow>
      handleKeyDown e s = redo s) \<and>
   (\<not> ((ctrlKey e \<or> metaKey e) \<and> key e \<in> {''z'', ''Z'', ''y'', ''Y''}) \<longrightarrow>
      handleKeyDown e s = Inr s)"
  by (auto simp add: handleKeyDown_def toLowerCase_z toLowerCase_y)

theorem handleKeyDown_shortcuts_witness:
  "handleKeyDown (keydown True False False ''z'') (with_history ink_canvas [[], [dash]] [[dash, dash]] [dash])
     = undo (with_history ink_canvas [[], [dash]] [[dash, dash]] [dash]) \<and>
   handleKeyDown (keydown False True True ''Z'') (with_history ink_canvas [[], [dash]] [[dash, dash]] [dash])
     = redo (with_history ink_canvas [[], [dash]] [[dash, dash]] [dash]) \<and>
   handleKeyDown (keydown True False False ''y'') (with_history ink_canvas [[], [dash]] [[dash, dash]] [dash])
     = redo (with_history ink_canvas [[], [dash]] [[dash, dash]] [dash]) \<and>
   handleKeyDown (keydown False False False ''z'') (with_history ink_canvas [[], [dash]] [[dash, dash]] [dash])
     = Inr (with_history ink_canvas [[], [dash]] [[dash, dash]] [dash]) \<and>
   handleKeyDown (keydown True False False ''a'') (with_history ink_canvas [[], [dash]] [[dash, dash]] [dash])
     = Inr (with_history ink_canvas [[], [dash]] [[dash, dash]] [dash]) \<and>
   raster (state_after (undo (with_history ink_canvas [[], [dash]] [[dash, dash]] [dash]))) = [] \<and>
   raster (state_after (redo (with_history ink_canvas [[], [dash]] [[dash, dash]] [dash]))) = [dash, dash]"
  using
    handleKeyDown_shortcuts [of "keydown True False False ''z''"
      "with_history ink_canvas [[], [dash]] [[dash, dash]] [dash]"]
    handleKeyDown_shortcuts [of "keydown False True True ''Z''"
      "with_history ink_canvas [[], [dash]] [[dash, dash]] [dash]"]
    handleKeyDown_shortcuts [of "keydown True False False ''y''"
      "with_history ink_canvas [[], [dash]] [[dash, dash]] [dash]"]
    handleKeyDown_shortcuts [of "keydown False False False ''z''"
      "with_history ink_canvas [[], [dash]] [[dash, dash]] [dash]"]
    handleKeyDown_shortcuts [of "keydown True False False ''a''"
      "with_history ink_canvas [[], [dash]] [[dash, dash]] [dash]"]
  by (simp add: keydown_def undo_eq redo_eq)

text \<open>
  C10. In every state \<open>r\<close> after mount the two stacks hold at most 50 snapshots
  together. \<open>saveState\<close> with canvas and context empties the redo stack and keeps an
  undo stack of at most 50 entries within 50. \<open>undo\<close> and \<open>redo\<close> never change the sum
  of the two lengths; past its guard \<open>undo\<close> makes the undo stack one shorter and the
  redo stack one longer, and \<open>redo\<close> the redo stack one shorter and the undo stack one
  longer, in any state \<open>s\<close> with canvas and context and in every state after mount.
\<close>

theorem history_size_bounded:
  fixes s r :: "'img state"
  assumes "r = run api evs (mount api el gotContext)"
  shows "length (undoStack r) + length (redoStack r) \<le> 50 \<and>
   (ctx s \<and> canvas s \<longrightarrow> redoStack (saveState s) = []) \<and>
   (length (undoStack s) \<le> 50 \<longrightarrow> length (undoStack (saveState s)) \<le> 50) \<and>
   length (undoStack (state_after (undo s))) + length (redoStack (state_after (undo s)))
     = length (undoStack s) + length (redoStack s) \<and>
   length (undoStack (state_after (redo s))) + length (redoStack (state_after (redo s)))
     = length (undoStack s) + length (redoStack s) \<and>
   (ctx s \<and> canvas s \<and> 2 \<le> length (undoStack s) \<longrightarrow>
      length (undoStack (state_after (undo s))) + 1 = length (undoStack s) \<and>
      length (redoStack (state_after (undo s))) = length (redoStack s) + 1) \<and>
   (ctx s \<and> canvas s \<and> redoStack s \<noteq> [] \<longrightarrow>
      length (redoStack (state_after (redo s))) + 1 = length (redoStack s) \<and>
      length (undoStack (state_after (redo s))) = length (undoStack s) + 1) \<and>
   (2 \<le> length (undoStack r) \<longrightarrow>
      length (undoStack (state_after (undo r))) + 1 = length (undoStack r) \<and>
      length (redoStack (state_after (undo r))) = length (redoStack r) + 1) \<and>
   (redoStack r \<noteq> [] \<longrightarrow>
      length (redoStack (state_after (redo r))) + 1 = length (redoStack r) \<and>
      length (undoStack (state_after (redo r))) = length (undoStack r) + 1)"
proof -
  have inv: "history_inv r"
    unfolding assms by (rule history_inv_reachable)
  have undo_moves: "length (undoStack (state_after (undo t))) + 1 = length (undoStack t) \<and>
      length (redoStack (state_after (undo t))) = length (redoStack t) + 1"
    if "ctx t" "canvas t" "2 \<le> length (undoStack t)" for t :: "'img state"
    using that by (cases "undoStack t" rule: rev_cases) (auto simp add: undo_eq)
  have redo_moves: "length (redoStack (state_after (redo t))) + 1 = length (redoStack t) \<and>
      length (undoStack (state_after (redo t))) = length (undoStack t) + 1"
    if "ctx t" "canvas t" "redoStack t \<noteq> []" for t :: "'img state"
    using that by (cases "redoStack t" rule: rev_cases) (auto simp add: redo_eq)
  have r_undo: "ctx r \<and> canvas r" if "2 \<le> length (undoStack r)"
    using inv that by (auto simp add: history_inv_def)
  have r_redo: "ctx r \<and> canvas r" if "redoStack r \<noteq> []"
    using inv that by (auto simp add: history_inv_def)
  have sum_undo: "length (undoStack (state_after (undo s))) + length (redoStack (state_after (undo s)))
     = length (undoStack s) + length (redoStack s)"
    by (cases "undoStack s" rule: rev_cases) (auto simp add: undo_eq)
  have sum_redo: "length (undoStack (state_after (redo s))) + length (redoStack (state_after (redo s)))
     = length (undoStack s) + length (redoStack s)"
    by (cases "redoStack s" rule: rev_cases) (auto simp add: redo_eq)
  have bound: "length (undoStack r) + length (redoStack r) \<le> 50"
    using inv by (simp add: history_inv_def)
  have save: "(ctx s \<and> canvas s \<longrightarrow> redoStack (saveState s) = []) \<and>
   (length (undoStack s) \<le> 50 \<longrightarrow> length (undoStack (saveState s)) \<le> 50)"
    by (simp add: redoStack_saveState undoStack_saveState)
  show ?thesis
    using bound save sum_undo sum_redo undo_moves [of s] redo_moves [of s]
      undo_moves [of r] redo_moves [of r] r_undo r_redo
    by blast
qed

theorem history_size_bounded_witness:
  "length (undoStack (run ink_canvas
       (strokes_events (replicate 60 (MouseStroke (at 1 2) [at 3 4])) @ [ClickUndo, ClickUndo])
       (mount ink_canvas True True)))
     + length (redoStack (run ink_canvas
       (strokes_events (replicate 60 (MouseStroke (at 1 2) [at 3 4])) @ [ClickUndo, ClickUndo])
       (mount ink_canvas True True))) \<le> 50 \<and>
   ctx (with_history ink_canvas [[], [dash]] [[dash, dash]] [dash]) \<and>
   canvas (with_history ink_canvas [[], [dash]] [[dash, dash]] [dash]) \<and>
   redoStack (saveState (with_history ink_canvas [[], [dash]] [[dash, dash]] [dash])) = [] \<and>
   length (undoStack (saveState (with_history ink_canvas [[], [dash]] [[dash, dash]] [dash]))) \<le> 50 \<and>
   length (undoStack (state_after (undo (with_history ink_canvas [[], [dash]] [[dash, dash]] [dash]))))
     = 1 \<and>
   length (redoStack (state_after (undo (with_history ink_canvas [[], [dash]] [[dash, dash]] [dash]))))
     = 2 \<and>
   length (undoStack (state_after (redo (with_history ink_canvas [[], [dash]] [[dash, dash]] [dash]))))
     = 3 \<and>
   length (redoStack (state_after (redo (with_history ink_canvas [[], [dash]] [[dash, dash]] [dash]))))
     = 0 \<and>
   undoStack (run ink_canvas
       (strokes_events [MouseStroke (at 1 2) [at 3 4], MouseStroke (at 1 2) [at 3 4]] @ [ClickUndo])
       (mount ink_canvas True True)) = [[], [dash]] \<and>
   redoStack (run ink_canvas
       (strokes_events [MouseStroke (at 1 2) [at 3 4], MouseStroke (at 1 2) [at 3 4]] @ [ClickUndo])
       (mount ink_canvas True True)) = [[dash, dash]] \<and>
   length (undoStack (state_after (undo (run ink_canvas
       (strokes_events [MouseStroke (at 1 2) [at 3 4], MouseStroke (at 1 2) [at 3 4]] @ [ClickUndo])
       (mount ink_canvas True True))))) = 1 \<and>
   length (redoStack (state_after (undo (run ink_canvas
       (strokes_events [MouseStroke (at 1 2) [at 3 4], MouseStroke (at 1 2) [at 3 4]] @ [ClickUndo])
       (mount ink_canvas True True))))) = 2 \<and>
   length (undoStack (state_after (redo (run ink_canvas
       (strokes_events [MouseStroke (at 1 2) [at 3 4], MouseStroke (at 1 2) [at 3 4]] @ [ClickUndo])
       (mount ink_canvas True True))))) = 3 \<and>
   length (redoStack (state_after (redo (run ink_canvas
       (strokes_events [MouseStroke (at 1 2) [at 3 4], MouseStroke (at 1 2) [at 3 4]] @ [ClickUndo])
       (mount ink_canvas True True))))) = 0"
proof -
  let ?r = "run ink_canvas
       (strokes_events [MouseStroke (at 1 2) [at 3 4], MouseStroke (at 1 2) [at 3 4]] @ [ClickUndo])
       (mount ink_canvas True True)"
  have r: "undoStack ?r = [[], [dash]]" "redoStack ?r = [[dash, dash]]"
    by (simp_all add: strokes_events_def handler_simps at_def dash_def)
  show ?thesis
    using history_size_bounded [of _ ink_canvas
        "strokes_events (replicate 60 (MouseStroke (at 1 2) [at 3 4])) @ [ClickUndo, ClickUndo]"
        True True "with_history ink_canvas [[], [dash]] [[dash, dash]] [dash]", OF refl]
      history_size_bounded [of ?r ink_canvas
        "strokes_events [MouseStroke (at 1 2) [at 3 4], MouseStroke (at 1 2) [at 3 4]] @ [ClickUndo]"
        True True "with_history ink_canvas [[], [dash]] [[dash, dash]] [dash]", OF refl]
    by (simp add: r del: run.simps)
qed

end
